theory Spec2Isabelle
  imports Complex_Main "HOL-Library.Word"
begin

section \<open>JavaScript strings\<close>

text \<open>
  A JavaScript string is a sequence of 16-bit code units; \<open>s.length\<close> counts them.
  A string literal of the source is written \<open>lit ''...''\<close>.
\<close>

type_synonym jsstring = "16 word list"

definition code_unit :: "char \<Rightarrow> 16 word" where
  "code_unit c = of_nat (of_char c)"

definition lit :: "string \<Rightarrow> jsstring" where
  "lit s = map code_unit s"

text \<open>
  Truthiness of a string value: the empty string is falsy, every other string is truthy.
  An absent (\<open>undefined\<close>) value is \<open>None\<close> and falsy as well.
\<close>

definition truthy :: "jsstring \<Rightarrow> bool" where
  "truthy s = (s \<noteq> [])"

text \<open>\<open>a || b\<close> for an optional string \<open>a\<close> and a string literal \<open>b\<close>.\<close>

fun or_else :: "jsstring option \<Rightarrow> jsstring \<Rightarrow> jsstring" where
  "or_else None b = b"
| "or_else (Some a) b = (if truthy a then a else b)"

text \<open>
  \<open>String.prototype.trim\<close> removes the leading and trailing code units that are
  WhiteSpace or LineTerminator in ECMAScript: TAB, LF, VT, FF, CR, SPACE, NBSP, U+1680,
  U+2000 to U+200A, U+2028, U+2029, U+202F, U+205F, U+3000 and U+FEFF.
\<close>

definition isWhiteSpace :: "16 word \<Rightarrow> bool" where
  "isWhiteSpace c =
     (c = 0x0009 \<or> c = 0x000A \<or> c = 0x000B \<or> c = 0x000C \<or> c = 0x000D \<or> c = 0x0020
      \<or> c = 0x00A0 \<or> c = 0x1680 \<or> (0x2000 \<le> c \<and> c \<le> 0x200A) \<or> c = 0x2028
      \<or> c = 0x2029 \<or> c = 0x202F \<or> c = 0x205F \<or> c = 0x3000 \<or> c = 0xFEFF)"

definition trim :: "jsstring \<Rightarrow> jsstring" where
  "trim s = rev (dropWhile isWhiteSpace (rev (dropWhile isWhiteSpace s)))"


section \<open>Configuration constants (config/constants.ts)\<close>

definition API_URL :: "bool \<Rightarrow> jsstring" where
  "API_URL dev =
     (if dev then lit ''http://localhost:8000/api/v1''
      else lit ''https://api.verifai.com/api/v1'')"

definition API_TIMEOUT :: nat where
  "API_TIMEOUT = 30000"

definition POLLING_INTERVAL :: nat where
  "POLLING_INTERVAL = 2000"


record confidence_thresholds =
  HIGH :: real
  MEDIUM :: real
  LOW :: real

definition CONFIDENCE_THRESHOLDS :: confidence_thresholds where
  "CONFIDENCE_THRESHOLDS = \<lparr>HIGH = 0.8, MEDIUM = 0.5, LOW = 0.3\<rparr>"


section \<open>Data model of the API service (services/api.ts)\<close>

record VerifyRequest =
  claim :: jsstring
  language :: "jsstring option"
  media_url :: "jsstring option"

datatype verdict = TRUE | FALSE | MISLEADING | UNVERIFIED | NEEDS_CONTEXT

record Evidence =
  source :: jsstring
  title :: jsstring
  snippet :: jsstring
  url :: jsstring
  relevance_score :: real

record Source =
  src_url :: jsstring
  src_title :: jsstring
  credibility :: real

record MediaAnalysis =
  is_manipulated :: bool
  ma_confidence :: real
  findings :: "jsstring list"

record VerificationResult =
  vr_id :: jsstring
  vr_claim :: jsstring
  vr_verdict :: verdict
  confidence :: real
  evidence :: "Evidence list"
  reasoning :: jsstring
  sources :: "Source list"
  media_analysis :: "MediaAnalysis option"
  created_at :: jsstring

record ClaimStatus =
  status :: jsstring
  result :: "VerificationResult option"

record Health =
  health_status :: jsstring


section \<open>The HTTP layer (axios)\<close>

text \<open>
  A call handed to axios: method, URL, body and the options the source passes. axios has
  no timeout unless one is given (\<open>None\<close>).
\<close>

datatype http_method = GET | POST

record http_call =
  call_method :: http_method
  call_url :: jsstring
  body :: "VerifyRequest option"
  timeout :: "nat option"
  headers :: "(jsstring \<times> jsstring) list"

text \<open>
  The value a rejected axios promise carries. \<open>response\<close> is set when the server answered
  with a status outside 2xx; \<open>request\<close> is set when the request was sent; neither is set
  when setting the request up failed. The body \<open>data\<close> of an error response is \<open>None\<close>
  when it is \<open>null\<close> or \<open>undefined\<close>, otherwise a value whose \<open>detail\<close> property is a
  string or is absent.
\<close>

record error_body =
  detail :: "jsstring option"

record error_response =
  http_status :: nat
  data :: "error_body option"

record axios_error =
  response :: "error_response option"
  request :: bool

text \<open>
  What a method of the service throws: an \<open>Error\<close> with the message given to its
  constructor, or the engine's \<open>TypeError\<close> for reading a property of \<open>null\<close> or
  \<open>undefined\<close>.
\<close>

datatype thrown = Error jsstring | TypeError

text \<open>The network: each call either rejects with an axios error or yields \<open>response.data\<close>.\<close>

type_synonym 'a net = "http_call \<Rightarrow> axios_error + 'a"


section \<open>APIService\<close>

text \<open>The call \<open>verify\<close> makes, and its \<open>catch\<close> block.\<close>

definition verify_call :: "bool \<Rightarrow> VerifyRequest \<Rightarrow> http_call" where
  "verify_call dev req =
     \<lparr>call_method = POST, call_url = API_URL dev @ lit ''/verify'', body = Some req,
      timeout = Some 30000,
      headers = [(lit ''Content-Type'', lit ''application/json'')]\<rparr>"

definition verify_catch :: "axios_error \<Rightarrow> thrown" where
  "verify_catch err =
     (case response err of
        Some r \<Rightarrow>
          (case data r of
             None \<Rightarrow> TypeError
           | Some b \<Rightarrow> Error (or_else (detail b) (lit ''Verification failed'')))
      | None \<Rightarrow>
          if request err then Error (lit ''Network error - please check your connection'')
          else Error (lit ''Failed to verify claim''))"

text \<open>Each method returns the calls it made and either what it throws or what it returns.\<close>

definition verify ::
  "bool \<Rightarrow> VerificationResult net \<Rightarrow> VerifyRequest \<Rightarrow> http_call list \<times> (thrown + VerificationResult)"
where
  "verify dev net req =
     ([verify_call dev req],
      case net (verify_call dev req) of
        Inr d \<Rightarrow> Inr d
      | Inl err \<Rightarrow> Inl (verify_catch err))"

text \<open>\<open>error.response?.data?.detail\<close>: absent as soon as one link of the chain is.\<close>

definition chained_detail :: "axios_error \<Rightarrow> jsstring option" where
  "chained_detail err =
     (case response err of
        None \<Rightarrow> None
      | Some r \<Rightarrow> (case data r of None \<Rightarrow> None | Some b \<Rightarrow> detail b))"

definition get_call :: "jsstring \<Rightarrow> http_call" where
  "get_call u = \<lparr>call_method = GET, call_url = u, body = None, timeout = None, headers = []\<rparr>"

definition status_call :: "bool \<Rightarrow> jsstring \<Rightarrow> http_call" where
  "status_call dev claimId =
     get_call (API_URL dev @ lit ''/claims/'' @ claimId @ lit ''/status'')"

definition getClaimStatus ::
  "bool \<Rightarrow> ClaimStatus net \<Rightarrow> jsstring \<Rightarrow> http_call list \<times> (thrown + ClaimStatus)"
where
  "getClaimStatus dev net claimId =
     (let c = status_call dev claimId in
      ([c],
       case net c of
         Inr d \<Rightarrow> Inr d
       | Inl err \<Rightarrow> Inl (Error (or_else (chained_detail err) (lit ''Failed to get claim status'')))))"

definition claim_call :: "bool \<Rightarrow> jsstring \<Rightarrow> http_call" where
  "claim_call dev claimId = get_call (API_URL dev @ lit ''/claims/'' @ claimId)"


definition getClaim ::
  "bool \<Rightarrow> VerificationResult net \<Rightarrow> jsstring \<Rightarrow> http_call list \<times> (thrown + VerificationResult)"
where
  "getClaim dev net claimId =
     (let c = claim_call dev claimId in
      ([c],
       case net c of
         Inr d \<Rightarrow> Inr d
       | Inl err \<Rightarrow> Inl (Error (or_else (chained_detail err) (lit ''Failed to get claim'')))))"

definition health_call :: "bool \<Rightarrow> http_call" where
  "health_call dev = get_call (API_URL dev @ lit ''/health'')"

definition healthCheck :: "bool \<Rightarrow> Health net \<Rightarrow> http_call list \<times> (thrown + Health)" where
  "healthCheck dev net =
     (let c = health_call dev in
      ([c],
       case net c of
         Inr d \<Rightarrow> Inr d
       | Inl err \<Rightarrow> Inl (Error (lit ''Backend is not responding''))))"


section \<open>ResultScreen\<close>

definition getConfidenceLabel :: "VerificationResult \<Rightarrow> jsstring" where
  "getConfidenceLabel res =
     (if confidence res \<ge> 0.8 then lit ''High Confidence''
      else if confidence res \<ge> 0.5 then lit ''Medium Confidence''
      else lit ''Low Confidence'')"

section \<open>InputScreen\<close>

text \<open>
  What the screen does to the outside, in order: state setters, alerts, the calls made
  through the service, navigation. The text of an alert is \<open>None\<close> when it is the message
  of an engine \<open>TypeError\<close>, whose wording the source does not fix.
\<close>

datatype effect =
    SetLoading bool
  | Alert jsstring "jsstring option"
  | Http http_call
  | Navigate jsstring VerificationResult

text \<open>\<open>error.message || 'Verification failed'\<close> in the \<open>catch\<close> block of \<open>handleVerify\<close>.\<close>

fun alert_message :: "thrown \<Rightarrow> jsstring option" where
  "alert_message (Error m) = Some (or_else (Some m) (lit ''Verification failed''))"
| "alert_message TypeError = None"

text \<open>The request object \<open>handleVerify\<close> builds from the text of the claim.\<close>

definition request_for :: "jsstring \<Rightarrow> VerifyRequest" where
  "request_for t = \<lparr>claim = trim t, language = Some (lit ''en-US''), media_url = None\<rparr>"

definition handleVerify :: "bool \<Rightarrow> VerificationResult net \<Rightarrow> jsstring \<Rightarrow> effect list" where
  "handleVerify dev net claim_text =
     (if \<not> truthy (trim claim_text) then
        [Alert (lit ''Error'') (Some (lit ''Please enter a claim''))]
      else
        (case verify dev net (request_for claim_text) of
           (calls, outcome) \<Rightarrow>
             [SetLoading True] @ map Http calls @
             (case outcome of
                Inr res \<Rightarrow> [Navigate (lit ''Result'') res]
              | Inl e \<Rightarrow> [Alert (lit ''Error'') (alert_message e)]) @
             [SetLoading False]))"


text \<open>
  The state of the screen and the events it receives. \<open>ChangeText\<close> is the text input
  calling \<open>onChangeText\<close> (only while \<open>editable\<close>), \<open>PressVerify\<close> a press on the verify
  button (ignored while \<open>disabled\<close>) together with the network's behaviour during that
  submission, \<open>PressClear\<close> a press on the clear button (rendered only when the claim is
  non-empty and nothing is loading). A submission is taken as one step.
\<close>

record screen =
  claim_state :: jsstring
  loading :: bool

datatype event =
    ChangeText jsstring
  | PressVerify "VerificationResult net"
  | PressClear

definition initial :: screen where
  "initial = \<lparr>claim_state = [], loading = False\<rparr>"


fun apply_effect :: "screen \<Rightarrow> effect \<Rightarrow> screen" where
  "apply_effect s (SetLoading b) = s\<lparr>loading := b\<rparr>"
| "apply_effect s _ = s"

fun step :: "bool \<Rightarrow> screen \<Rightarrow> event \<Rightarrow> screen \<times> effect list" where
  "step dev s (ChangeText t) =
     (if loading s then (s, []) else (s\<lparr>claim_state := t\<rparr>, []))"
| "step dev s (PressVerify net) =
     (if \<not> truthy (trim (claim_state s)) \<or> loading s then (s, [])
      else (let es = handleVerify dev net (claim_state s) in (foldl apply_effect s es, es)))"
| "step dev s PressClear =
     (if truthy (claim_state s) \<and> \<not> loading s then (s\<lparr>claim_state := []\<rparr>, []) else (s, []))"

fun run :: "bool \<Rightarrow> screen \<Rightarrow> event list \<Rightarrow> screen \<times> effect list" where
  "run dev s [] = (s, [])"
| "run dev s (ev # evs) =
     (case step dev s ev of
        (s', es) \<Rightarrow> (case run dev s' evs of (s'', es') \<Rightarrow> (s'', es @ es')))"

text \<open>The calls made in a trace, and the request bodies sent in it.\<close>

fun calls_of :: "effect list \<Rightarrow> http_call list" where
  "calls_of [] = []"
| "calls_of (Http c # es) = c # calls_of es"
| "calls_of (_ # es) = calls_of es"


fun submitted :: "effect list \<Rightarrow> VerifyRequest list" where
  "submitted [] = []"
| "submitted (Http c # es) =
     (case body c of Some r \<Rightarrow> r # submitted es | None \<Rightarrow> submitted es)"
| "submitted (_ # es) = submitted es"



section \<open>The verdict synthesizer\<close>

text \<open>
  The synthesizer runs on the server and is not among the sources of the client. The
  definitions of this section follow section 4.3 of the specification; the constants it
  leaves open are the fields of \<open>synth_params\<close>.
\<close>

text \<open>Modelled from the spec: the polarity a provider adapter tags an Evidence with
  (step 1 of section 4.3); the adapters are missing from the sources.\<close>

datatype polarity = Supporting | Contradicting | Neutral

text \<open>Modelled from the spec: an Evidence of the server, with its polarity as
  provider-supplied metadata (sections 3 and 4.3); the server's data model is missing
  from the sources.\<close>

record TaggedEvidence = Evidence +
  polarity :: polarity

text \<open>Modelled from the spec: the constants section 4.3 names without fixing them, of the
  missing synthesizer: the small constant of step 3, the minimum evidence count and the
  "substantial" and "narrow band" bounds of step 4, and the media confidence from which
  step 6 calls a finding high-confidence.\<close>

record synth_params =
  epsilon :: real
  minEvidence :: nat
  substantial :: real
  band :: real
  mediaHigh :: real

text \<open>Modelled from the spec: steps 1 and 2 of the missing synthesizer, the sum of the
  relevance scores over the evidence of one polarity.\<close>

definition bucketWeight :: "polarity \<Rightarrow> TaggedEvidence list \<Rightarrow> real" where
  "bucketWeight pol evs = sum_list (map relevance_score (filter (\<lambda>e. polarity e = pol) evs))"

text \<open>Modelled from the spec: \<open>supportWeight\<close> of step 2 of the missing synthesizer.\<close>

definition supportWeight :: "TaggedEvidence list \<Rightarrow> real" where
  "supportWeight evs = bucketWeight Supporting evs"

text \<open>Modelled from the spec: \<open>contradictWeight\<close> of step 2 of the missing synthesizer.\<close>

definition contradictWeight :: "TaggedEvidence list \<Rightarrow> real" where
  "contradictWeight evs = bucketWeight Contradicting evs"

text \<open>Modelled from the spec: \<open>netScore\<close> of step 3 of the missing synthesizer.\<close>

definition netScore :: "synth_params \<Rightarrow> TaggedEvidence list \<Rightarrow> real" where
  "netScore p evs =
     (supportWeight evs - contradictWeight evs)
       / (supportWeight evs + contradictWeight evs + epsilon p)"

text \<open>Modelled from the spec: step 4 of the missing synthesizer, the verdict the textual
  evidence alone gives, by the fixed thresholds 0.6 and -0.6.\<close>

definition textVerdict :: "synth_params \<Rightarrow> TaggedEvidence list \<Rightarrow> verdict" where
  "textVerdict p evs =
     (if netScore p evs \<ge> 0.6 then TRUE
      else if netScore p evs \<le> - 0.6 then FALSE
      else if length evs < minEvidence p then UNVERIFIED
      else if supportWeight evs \<ge> substantial p \<and> contradictWeight evs \<ge> substantial p
              \<and> \<bar>supportWeight evs - contradictWeight evs\<bar> \<le> band p
           then NEEDS_CONTEXT
      else MISLEADING)"

text \<open>Modelled from the spec: step 6 of the missing synthesizer. Capping at MISLEADING
  lowers TRUE to MISLEADING and leaves the other verdicts as they are.\<close>

definition mediaCap :: "synth_params \<Rightarrow> MediaAnalysis option \<Rightarrow> verdict \<Rightarrow> verdict" where
  "mediaCap p media v =
     (case media of
        None \<Rightarrow> v
      | Some m \<Rightarrow>
          if is_manipulated m \<and> ma_confidence m \<ge> mediaHigh p \<and> v = TRUE then MISLEADING
          else v)"

text \<open>Modelled from the spec: the verdict of the missing synthesizer, steps 1 to 4
  followed by step 6.\<close>

definition synthesizeVerdict ::
  "synth_params \<Rightarrow> TaggedEvidence list \<Rightarrow> MediaAnalysis option \<Rightarrow> verdict" where
  "synthesizeVerdict p evs media = mediaCap p media (textVerdict p evs)"


section \<open>Sample values\<close>

text \<open>A result as the server would send it for the flat-earth scenario.\<close>

definition sample_result :: "real \<Rightarrow> VerificationResult" where
  "sample_result c =
     \<lparr>vr_id = lit ''42'', vr_claim = lit ''The Earth is flat'', vr_verdict = FALSE,
      confidence = c,
      evidence = [\<lparr>source = lit ''web'', title = lit ''Shape of the Earth'',
                   snippet = lit ''The Earth is an oblate spheroid.'',
                   url = lit ''https://example.org/earth'', relevance_score = 0.9\<rparr>],
      reasoning = lit ''Contradicted by the retrieved evidence.'',
      sources = [\<lparr>src_url = lit ''https://example.org/earth'',
                  src_title = lit ''Shape of the Earth'', credibility = 0.9\<rparr>],
      media_analysis = None, created_at = lit ''2024-01-01T00:00:00Z''\<rparr>"

definition sample_request :: VerifyRequest where
  "sample_request =
     \<lparr>claim = lit ''The Earth is flat'', language = Some (lit ''en-US''), media_url = None\<rparr>"

text \<open>The text as typed, with surrounding blanks, and a text of blanks only.\<close>

definition typed_claim :: jsstring where
  "typed_claim = lit ''  The Earth is flat ''"

definition blank_claim :: jsstring where
  "blank_claim = lit ''   ''"



text \<open>
  Three rejections of axios: the request was sent and nothing came back; the server
  answered 404 with or without a detail; setting the request up failed.
\<close>

definition network_failure :: axios_error where
  "network_failure = \<lparr>response = None, request = True\<rparr>"

definition server_failure :: "jsstring option \<Rightarrow> axios_error" where
  "server_failure d =
     \<lparr>response = Some \<lparr>http_status = 404, data = Some \<lparr>detail = d\<rparr>\<rparr>, request = True\<rparr>"

definition no_response_no_request :: axios_error where
  "no_response_no_request = \<lparr>response = None, request = False\<rparr>"

text \<open>A rejection whose response has no body (\<open>data\<close> is \<open>null\<close>).\<close>

definition bodiless_failure :: axios_error where
  "bodiless_failure = \<lparr>response = Some \<lparr>http_status = 502, data = None\<rparr>, request = True\<rparr>"

text \<open>
  The manipulated-media scenario: supporting evidence with a net score of 0.9 and a
  media analysis that reports manipulation with confidence 0.95.
\<close>

definition scenario_params :: synth_params where
  "scenario_params =
     \<lparr>epsilon = 0.001, minEvidence = 2, substantial = 0.5, band = 0.1, mediaHigh = 0.9\<rparr>"

definition scenario_evidence :: "TaggedEvidence list" where
  "scenario_evidence =
     [\<lparr>source = lit ''web'', title = lit ''Report'', snippet = lit ''It happened.'',
       url = lit ''https://example.org/a'', relevance_score = 0.959, polarity = Supporting\<rparr>,
      \<lparr>source = lit ''web'', title = lit ''Blog'', snippet = lit ''It did not.'',
       url = lit ''https://example.org/b'', relevance_score = 0.05, polarity = Contradicting\<rparr>]"

definition scenario_media :: MediaAnalysis where
  "scenario_media =
     \<lparr>is_manipulated = True, ma_confidence = 0.95, findings = [lit ''Spliced region'']\<rparr>"


section \<open>Facts about strings\<close>

lemma of_char_bound: "(of_char c :: nat) < 2 ^ 16"
proof -
  have "(of_char c :: nat) < 256" by (cases c) simp
  also have "(256::nat) < 2 ^ 16" by simp
  finally show ?thesis .
qed

lemma unat_code_unit: "unat (code_unit c) = of_char c"
proof -
  have len: "LENGTH(16) = 16" by simp
  have "unat ((of_nat (of_char c)) :: 16 word) = of_char c mod 2 ^ 16"
    by (simp only: unat_of_nat len)
  also have "\<dots> = of_char c"
    using of_char_bound [of c] by (rule mod_less)
  finally show ?thesis by (simp only: code_unit_def)
qed

lemma code_unit_inject: "code_unit c = code_unit d \<longleftrightarrow> c = d"
proof
  assume h: "code_unit c = code_unit d"
  have "(of_char c :: nat) = unat (code_unit c)"
    by (rule unat_code_unit [symmetric])
  also have "\<dots> = unat (code_unit d)"
    by (rule arg_cong [OF h])
  also have "\<dots> = of_char d"
    by (rule unat_code_unit)
  finally show "c = d" by (simp only: of_char_eq_iff)
next
  assume "c = d"
  then show "code_unit c = code_unit d" by (rule arg_cong)
qed

lemma lit_eq_iff: "lit s = lit t \<longleftrightarrow> s = t"
  unfolding lit_def by (simp add: inj_map_eq_map inj_on_def code_unit_inject)

lemma lit_Nil_iff: "lit s = [] \<longleftrightarrow> s = []"
  by (simp add: lit_def)



lemma trim_last: "trim s \<noteq> [] \<Longrightarrow> \<not> isWhiteSpace (last (trim s))"
proof -
  assume h: "trim s \<noteq> []"
  let ?d = "dropWhile isWhiteSpace (rev (dropWhile isWhiteSpace s))"
  from h have ne: "?d \<noteq> []" by (simp add: trim_def)
  then have "\<not> isWhiteSpace (hd ?d)" by (rule hd_dropWhile)
  moreover have "last (trim s) = hd ?d" using ne by (simp add: trim_def last_rev)
  ultimately show ?thesis by simp
qed

lemma trim_not_blank: "trim s \<noteq> [] \<Longrightarrow> \<exists>c \<in> set (trim s). \<not> isWhiteSpace c"
  using trim_last [of s] last_in_set [of "trim s"] by blast

lemma code_unit_space: "code_unit CHR '' '' = 0x20"
  by (simp add: code_unit_def)

lemma code_unit_T: "code_unit CHR ''T'' = 0x54"
  by (simp add: code_unit_def)

lemma code_unit_t: "code_unit CHR ''t'' = 0x74"
  by (simp add: code_unit_def)

lemma isWhiteSpace_space: "isWhiteSpace (code_unit CHR '' '')"
  by (simp add: code_unit_space isWhiteSpace_def)

lemma not_isWhiteSpace_T: "\<not> isWhiteSpace (code_unit CHR ''T'')"
  by (simp add: code_unit_T isWhiteSpace_def)

lemma not_isWhiteSpace_t: "\<not> isWhiteSpace (code_unit CHR ''t'')"
  by (simp add: code_unit_t isWhiteSpace_def)

lemma trim_typed_claim: "trim typed_claim = lit ''The Earth is flat''"
  by (simp add: typed_claim_def trim_def lit_def isWhiteSpace_space not_isWhiteSpace_T
        not_isWhiteSpace_t)

lemma trim_blank_claim: "trim blank_claim = []"
  by (simp add: blank_claim_def trim_def lit_def isWhiteSpace_space)



section \<open>Properties of the API service\<close>

text \<open>
  C4. Every POST /verify request carries a timeout of 30000 ms, the value of the
  constant \<open>API_TIMEOUT\<close>: \<open>verify\<close> makes exactly one call, a POST to \<open>/verify\<close> under the
  base URL, and its timeout option is 30000.
\<close>

theorem verify_timeout:
  "map timeout (fst (verify dev net req)) = [Some API_TIMEOUT] \<and> API_TIMEOUT = 30000
   \<and> map call_method (fst (verify dev net req)) = [POST]
   \<and> map call_url (fst (verify dev net req)) = [API_URL dev @ lit ''/verify'']"
  by (simp add: verify_def verify_call_def API_TIMEOUT_def)

text \<open>
  C9. The health check collapses every failure into one condition: whatever error the
  GET /health call rejects with, carrying a detail text or not, \<open>healthCheck\<close> throws an
  \<open>Error\<close> with the message "Backend is not responding".
\<close>

theorem healthCheck_collapses_failures:
  "net (health_call dev) = Inl err \<Longrightarrow>
     snd (healthCheck dev net) = Inl (Error (lit ''Backend is not responding''))"
  by (simp add: healthCheck_def Let_def)

theorem healthCheck_collapses_failures_witness:
  "snd (healthCheck False (\<lambda>c. Inl \<lparr>response = Some \<lparr>http_status = 503,
         data = Some \<lparr>detail = Some (lit ''Service unavailable'')\<rparr>\<rparr>, request = True\<rparr>))
     = Inl (Error (lit ''Backend is not responding''))
   \<and> snd (healthCheck False (\<lambda>c. Inl \<lparr>response = None, request = True\<rparr>))
     = Inl (Error (lit ''Backend is not responding''))"
  using healthCheck_collapses_failures
          [of "\<lambda>c. Inl \<lparr>response = Some \<lparr>http_status = 503,
                 data = Some \<lparr>detail = Some (lit ''Service unavailable'')\<rparr>\<rparr>, request = True\<rparr>" False]
        healthCheck_collapses_failures [of "\<lambda>c. Inl \<lparr>response = None, request = True\<rparr>" False]
  by simp

text \<open>
  C1 as stated fails: \<open>verify\<close> knows a third condition. When the rejection carries neither
  a response nor a request, the message thrown is "Failed to verify claim", which is
  neither a detail of the server nor the no-connection message.
\<close>

theorem verify_setup_failure_counterexample:
  "snd (verify False (\<lambda>c. Inl no_response_no_request) sample_request)
     = Inl (Error (lit ''Failed to verify claim''))
   \<and> response no_response_no_request = None
   \<and> lit ''Failed to verify claim'' \<noteq> lit ''Network error - please check your connection''"
  by (simp add: verify_def verify_catch_def no_response_no_request_def lit_eq_iff)

text \<open>
  C1, amended. A failed POST /verify call is mapped to one of three conditions. If the
  server responded with a body, the message thrown is the body's detail, or
  "Verification failed" when the detail is absent or empty. If no response arrived and
  the request was sent, it is "Network error - please check your connection". If no
  response arrived and no request was sent, it is "Failed to verify claim".
\<close>

theorem verify_error_mapping:
  "net (verify_call dev req) = Inl err \<Longrightarrow>
     (\<forall>r b d. response err = Some r \<and> data r = Some b \<and> detail b = Some d \<and> d \<noteq> []
        \<longrightarrow> snd (verify dev net req) = Inl (Error d))
   \<and> (\<forall>r b. response err = Some r \<and> data r = Some b
              \<and> (detail b = None \<or> detail b = Some [])
        \<longrightarrow> snd (verify dev net req) = Inl (Error (lit ''Verification failed'')))
   \<and> (response err = None \<and> request err
        \<longrightarrow> snd (verify dev net req)
            = Inl (Error (lit ''Network error - please check your connection'')))
   \<and> (response err = None \<and> \<not> request err
        \<longrightarrow> snd (verify dev net req) = Inl (Error (lit ''Failed to verify claim'')))"
  by (auto simp add: verify_def verify_catch_def truthy_def)

theorem verify_error_mapping_witness:
  "snd (verify False (\<lambda>c. Inl (server_failure (Some (lit ''Claim too long'')))) sample_request)
     = Inl (Error (lit ''Claim too long''))
   \<and> snd (verify False (\<lambda>c. Inl (server_failure None)) sample_request)
     = Inl (Error (lit ''Verification failed''))
   \<and> snd (verify False (\<lambda>c. Inl network_failure) sample_request)
     = Inl (Error (lit ''Network error - please check your connection''))
   \<and> snd (verify False (\<lambda>c. Inl no_response_no_request) sample_request)
     = Inl (Error (lit ''Failed to verify claim''))"
proof -
  note detailed = verify_error_mapping
    [of "\<lambda>c. Inl (server_failure (Some (lit ''Claim too long'')))" False sample_request
        "server_failure (Some (lit ''Claim too long''))"]
  note silent = verify_error_mapping
    [of "\<lambda>c. Inl (server_failure None)" False sample_request "server_failure None"]
  note lost = verify_error_mapping
    [of "\<lambda>c. Inl network_failure" False sample_request network_failure]
  note unsent = verify_error_mapping
    [of "\<lambda>c. Inl no_response_no_request" False sample_request no_response_no_request]
  have "snd (verify False (\<lambda>c. Inl (server_failure (Some (lit ''Claim too long''))))
          sample_request) = Inl (Error (lit ''Claim too long''))"
    using detailed by (simp add: server_failure_def lit_Nil_iff)
  moreover have "snd (verify False (\<lambda>c. Inl (server_failure None)) sample_request)
       = Inl (Error (lit ''Verification failed''))"
    using silent by (simp add: server_failure_def)
  moreover have "snd (verify False (\<lambda>c. Inl network_failure) sample_request)
       = Inl (Error (lit ''Network error - please check your connection''))"
    using lost by (simp add: network_failure_def)
  moreover have "snd (verify False (\<lambda>c. Inl no_response_no_request) sample_request)
       = Inl (Error (lit ''Failed to verify claim''))"
    using unsent by (simp add: no_response_no_request_def)
  ultimately show ?thesis by simp
qed

text \<open>Failures of the two lookups: what each throws, in terms of the chained detail.\<close>

lemma chained_detail_no_response: "response err = None \<Longrightarrow> chained_detail err = None"
  by (simp add: chained_detail_def)

lemma chained_detail_data:
  "response err = Some r \<Longrightarrow> data r = Some b \<Longrightarrow> chained_detail err = detail b"
  by (simp add: chained_detail_def)

lemma getClaim_failure:
  "net (claim_call dev claimId) = Inl err \<Longrightarrow>
     snd (getClaim dev net claimId)
       = Inl (Error (or_else (chained_detail err) (lit ''Failed to get claim'')))"
  by (simp add: getClaim_def Let_def)

lemma getClaimStatus_failure:
  "net (status_call dev claimId) = Inl err \<Longrightarrow>
     snd (getClaimStatus dev net claimId)
       = Inl (Error (or_else (chained_detail err) (lit ''Failed to get claim status'')))"
  by (simp add: getClaimStatus_def Let_def)

lemma or_else_chained_said:
  "response err = Some r \<Longrightarrow> data r = Some b \<Longrightarrow> detail b = Some d \<Longrightarrow> d \<noteq> [] \<Longrightarrow>
     or_else (chained_detail err) g = d"
  by (simp add: chained_detail_def truthy_def)

lemma or_else_chained_unsaid:
  assumes "\<not> (\<exists>r b d. response err = Some r \<and> data r = Some b \<and> detail b = Some d \<and> d \<noteq> [])"
  shows "or_else (chained_detail err) g = g"
proof (cases "response err")
  case None
  then show ?thesis by (simp add: chained_detail_def)
next
  case (Some r)
  note answered = this
  show ?thesis
  proof (cases "data r")
    case None
    with answered show ?thesis by (simp add: chained_detail_def)
  next
    case (Some b)
    note bodied = this
    show ?thesis
    proof (cases "detail b")
      case None
      with answered bodied show ?thesis by (simp add: chained_detail_def)
    next
      case (Some d)
      with answered bodied assms have "d = []" by blast
      with Some answered bodied show ?thesis
        by (simp add: chained_detail_def truthy_def)
    qed
  qed
qed

text \<open>
  C3 as stated fails: for GET /claims/{id} and GET /claims/{id}/status a network-level
  failure gets no condition of its own. It throws the same generic message as a server
  failure without detail, "Failed to get claim" or "Failed to get claim status", and not
  the no-connection message of \<open>verify\<close>.
\<close>

theorem lookup_network_failure_counterexample:
  "snd (getClaim False (\<lambda>c. Inl network_failure) (lit ''42''))
     = Inl (Error (lit ''Failed to get claim''))
   \<and> snd (getClaim False (\<lambda>c. Inl (server_failure None)) (lit ''42''))
     = Inl (Error (lit ''Failed to get claim''))
   \<and> snd (getClaimStatus False (\<lambda>c. Inl network_failure) (lit ''42''))
     = Inl (Error (lit ''Failed to get claim status''))
   \<and> snd (getClaimStatus False (\<lambda>c. Inl (server_failure None)) (lit ''42''))
     = Inl (Error (lit ''Failed to get claim status''))"
  by (simp add: getClaim_def getClaimStatus_def chained_detail_def network_failure_def
        server_failure_def Let_def)

text \<open>
  C3, amended. For a failed GET /claims/{id} and a failed GET /claims/{id}/status, a
  server-reported failure whose body carries a non-empty detail is thrown with that
  detail as its message, verbatim; every other failure is thrown with the generic
  message of the method, "Failed to get claim" or "Failed to get claim status": a server
  failure whose detail is absent or empty, a response without a body, and every failure
  without a response, network-level failures included.
\<close>

theorem lookup_error_mapping:
  "(net (claim_call dev claimId) = Inl err \<longrightarrow>
      (\<forall>r b d. response err = Some r \<and> data r = Some b \<and> detail b = Some d \<and> d \<noteq> []
         \<longrightarrow> snd (getClaim dev net claimId) = Inl (Error d))
    \<and> (\<not> (\<exists>r b d. response err = Some r \<and> data r = Some b \<and> detail b = Some d \<and> d \<noteq> [])
         \<longrightarrow> snd (getClaim dev net claimId) = Inl (Error (lit ''Failed to get claim'')))
    \<and> (\<forall>r b. response err = Some r \<and> data r = Some b
               \<and> (detail b = None \<or> detail b = Some [])
         \<longrightarrow> snd (getClaim dev net claimId) = Inl (Error (lit ''Failed to get claim'')))
    \<and> (\<forall>r. response err = Some r \<and> data r = None
         \<longrightarrow> snd (getClaim dev net claimId) = Inl (Error (lit ''Failed to get claim'')))
    \<and> (response err = None
         \<longrightarrow> snd (getClaim dev net claimId) = Inl (Error (lit ''Failed to get claim''))))
   \<and> (snet (status_call dev claimId) = Inl err \<longrightarrow>
      (\<forall>r b d. response err = Some r \<and> data r = Some b \<and> detail b = Some d \<and> d \<noteq> []
         \<longrightarrow> snd (getClaimStatus dev snet claimId) = Inl (Error d))
    \<and> (\<not> (\<exists>r b d. response err = Some r \<and> data r = Some b \<and> detail b = Some d \<and> d \<noteq> [])
         \<longrightarrow> snd (getClaimStatus dev snet claimId)
             = Inl (Error (lit ''Failed to get claim status'')))
    \<and> (\<forall>r b. response err = Some r \<and> data r = Some b
               \<and> (detail b = None \<or> detail b = Some [])
         \<longrightarrow> snd (getClaimStatus dev snet claimId)
             = Inl (Error (lit ''Failed to get claim status'')))
    \<and> (\<forall>r. response err = Some r \<and> data r = None
         \<longrightarrow> snd (getClaimStatus dev snet claimId)
             = Inl (Error (lit ''Failed to get claim status'')))
    \<and> (response err = None
         \<longrightarrow> snd (getClaimStatus dev snet claimId)
             = Inl (Error (lit ''Failed to get claim status''))))"
proof -
  let ?said = "\<exists>r b d. response err = Some r \<and> data r = Some b \<and> detail b = Some d \<and> d \<noteq> []"
  have said: "snd (getClaim dev net claimId) = Inl (Error d)"
    if "net (claim_call dev claimId) = Inl err"
      and "response err = Some r \<and> data r = Some b \<and> detail b = Some d \<and> d \<noteq> []"
    for r b d
    using getClaim_failure [of net dev claimId err] that
    by (simp add: or_else_chained_said)
  have unsaid: "snd (getClaim dev net claimId) = Inl (Error (lit ''Failed to get claim''))"
    if "net (claim_call dev claimId) = Inl err" and "\<not> ?said"
  proof -
    from that(2) have "or_else (chained_detail err) (lit ''Failed to get claim'')
                         = lit ''Failed to get claim''"
      by (rule or_else_chained_unsaid)
    with getClaim_failure [of net dev claimId err] that(1) show ?thesis by simp
  qed
  have said': "snd (getClaimStatus dev snet claimId) = Inl (Error d)"
    if "snet (status_call dev claimId) = Inl err"
      and "response err = Some r \<and> data r = Some b \<and> detail b = Some d \<and> d \<noteq> []"
    for r b d
    using getClaimStatus_failure [of snet dev claimId err] that
    by (simp add: or_else_chained_said)
  have unsaid': "snd (getClaimStatus dev snet claimId)
                   = Inl (Error (lit ''Failed to get claim status''))"
    if "snet (status_call dev claimId) = Inl err" and "\<not> ?said"
  proof -
    from that(2) have "or_else (chained_detail err) (lit ''Failed to get claim status'')
                         = lit ''Failed to get claim status''"
      by (rule or_else_chained_unsaid)
    with getClaimStatus_failure [of snet dev claimId err] that(1) show ?thesis by simp
  qed
  have empty: "\<not> ?said"
    if "response err = Some r \<and> data r = Some b \<and> (detail b = None \<or> detail b = Some [])"
    for r b
    using that by auto
  have bodiless: "\<not> ?said" if "response err = Some r \<and> data r = None" for r
    using that by auto
  have unanswered: "\<not> ?said" if "response err = None"
    using that by auto
  have one: "net (claim_call dev claimId) = Inl err \<longrightarrow>
      (\<forall>r b d. response err = Some r \<and> data r = Some b \<and> detail b = Some d \<and> d \<noteq> []
         \<longrightarrow> snd (getClaim dev net claimId) = Inl (Error d))
    \<and> (\<not> ?said
         \<longrightarrow> snd (getClaim dev net claimId) = Inl (Error (lit ''Failed to get claim'')))
    \<and> (\<forall>r b. response err = Some r \<and> data r = Some b
               \<and> (detail b = None \<or> detail b = Some [])
         \<longrightarrow> snd (getClaim dev net claimId) = Inl (Error (lit ''Failed to get claim'')))
    \<and> (\<forall>r. response err = Some r \<and> data r = None
         \<longrightarrow> snd (getClaim dev net claimId) = Inl (Error (lit ''Failed to get claim'')))
    \<and> (response err = None
         \<longrightarrow> snd (getClaim dev net claimId) = Inl (Error (lit ''Failed to get claim'')))"
    using said unsaid empty bodiless unanswered by blast
  have two: "snet (status_call dev claimId) = Inl err \<longrightarrow>
      (\<forall>r b d. response err = Some r \<and> data r = Some b \<and> detail b = Some d \<and> d \<noteq> []
         \<longrightarrow> snd (getClaimStatus dev snet claimId) = Inl (Error d))
    \<and> (\<not> ?said
         \<longrightarrow> snd (getClaimStatus dev snet claimId)
             = Inl (Error (lit ''Failed to get claim status'')))
    \<and> (\<forall>r b. response err = Some r \<and> data r = Some b
               \<and> (detail b = None \<or> detail b = Some [])
         \<longrightarrow> snd (getClaimStatus dev snet claimId)
             = Inl (Error (lit ''Failed to get claim status'')))
    \<and> (\<forall>r. response err = Some r \<and> data r = None
         \<longrightarrow> snd (getClaimStatus dev snet claimId)
             = Inl (Error (lit ''Failed to get claim status'')))
    \<and> (response err = None
         \<longrightarrow> snd (getClaimStatus dev snet claimId)
             = Inl (Error (lit ''Failed to get claim status'')))"
    using said' unsaid' empty bodiless unanswered by blast
  from one two show ?thesis by (rule conjI)
qed

theorem lookup_error_mapping_witness:
  "snd (getClaim False (\<lambda>c. Inl (server_failure (Some (lit ''Claim not found'')))) (lit ''42''))
     = Inl (Error (lit ''Claim not found''))
   \<and> snd (getClaimStatus False (\<lambda>c. Inl (server_failure (Some (lit ''Claim not found''))))
           (lit ''42''))
     = Inl (Error (lit ''Claim not found''))
   \<and> snd (getClaim False (\<lambda>c. Inl network_failure) (lit ''42''))
     = Inl (Error (lit ''Failed to get claim''))
   \<and> snd (getClaimStatus False (\<lambda>c. Inl network_failure) (lit ''42''))
     = Inl (Error (lit ''Failed to get claim status''))
   \<and> snd (getClaim False (\<lambda>c. Inl bodiless_failure) (lit ''42''))
     = Inl (Error (lit ''Failed to get claim''))
   \<and> snd (getClaimStatus False (\<lambda>c. Inl bodiless_failure) (lit ''42''))
     = Inl (Error (lit ''Failed to get claim status''))"
proof -
  note found = lookup_error_mapping
    [of "\<lambda>c. Inl (server_failure (Some (lit ''Claim not found'')))" False "lit ''42''"
        "server_failure (Some (lit ''Claim not found''))"
        "\<lambda>c. Inl (server_failure (Some (lit ''Claim not found'')))"]
  note lost = lookup_error_mapping
    [of "\<lambda>c. Inl network_failure" False "lit ''42''" network_failure
        "\<lambda>c. Inl network_failure"]
  note bodiless = lookup_error_mapping
    [of "\<lambda>c. Inl bodiless_failure" False "lit ''42''" bodiless_failure
        "\<lambda>c. Inl bodiless_failure"]
  have "snd (getClaim False (\<lambda>c. Inl (server_failure (Some (lit ''Claim not found''))))
          (lit ''42'')) = Inl (Error (lit ''Claim not found''))"
    using found by (simp add: server_failure_def lit_Nil_iff)
  moreover have "snd (getClaimStatus False
          (\<lambda>c. Inl (server_failure (Some (lit ''Claim not found'')))) (lit ''42''))
       = Inl (Error (lit ''Claim not found''))"
    using found by (simp add: server_failure_def lit_Nil_iff)
  moreover have "snd (getClaim False (\<lambda>c. Inl network_failure) (lit ''42''))
       = Inl (Error (lit ''Failed to get claim''))"
    using lost by (simp add: network_failure_def)
  moreover have "snd (getClaimStatus False (\<lambda>c. Inl network_failure) (lit ''42''))
       = Inl (Error (lit ''Failed to get claim status''))"
    using lost by (simp add: network_failure_def)
  moreover have "snd (getClaim False (\<lambda>c. Inl bodiless_failure) (lit ''42''))
       = Inl (Error (lit ''Failed to get claim''))"
    using bodiless by (simp add: bodiless_failure_def)
  moreover have "snd (getClaimStatus False (\<lambda>c. Inl bodiless_failure) (lit ''42''))
       = Inl (Error (lit ''Failed to get claim status''))"
    using bodiless by (simp add: bodiless_failure_def)
  ultimately show ?thesis by simp
qed


section \<open>Properties of the result screen\<close>

text \<open>
  C10. The confidence label is "High Confidence" exactly when the confidence is at least
  0.8, "Medium Confidence" exactly when it is at least 0.5 and below 0.8, and
  "Low Confidence" exactly in the remaining case. The two cut-offs are the values of
  \<open>CONFIDENCE_THRESHOLDS.HIGH\<close> and \<open>CONFIDENCE_THRESHOLDS.MEDIUM\<close>; the value of
  \<open>CONFIDENCE_THRESHOLDS.LOW\<close>, 0.3, plays no part: confidences on either side of it, both
  below the medium cut-off, get the same label.
\<close>

theorem confidence_label_cutoffs:
  "(getConfidenceLabel res = lit ''High Confidence''
      \<longleftrightarrow> confidence res \<ge> HIGH CONFIDENCE_THRESHOLDS)
   \<and> (getConfidenceLabel res = lit ''Medium Confidence''
      \<longleftrightarrow> MEDIUM CONFIDENCE_THRESHOLDS \<le> confidence res
          \<and> confidence res < HIGH CONFIDENCE_THRESHOLDS)
   \<and> (getConfidenceLabel res = lit ''Low Confidence''
      \<longleftrightarrow> \<not> confidence res \<ge> HIGH CONFIDENCE_THRESHOLDS
          \<and> \<not> (MEDIUM CONFIDENCE_THRESHOLDS \<le> confidence res
                \<and> confidence res < HIGH CONFIDENCE_THRESHOLDS))
   \<and> HIGH CONFIDENCE_THRESHOLDS = 0.8 \<and> MEDIUM CONFIDENCE_THRESHOLDS = 0.5
   \<and> LOW CONFIDENCE_THRESHOLDS = 0.3
   \<and> (confidence a < LOW CONFIDENCE_THRESHOLDS \<and> LOW CONFIDENCE_THRESHOLDS \<le> confidence b
        \<and> confidence b < MEDIUM CONFIDENCE_THRESHOLDS
      \<longrightarrow> getConfidenceLabel a = getConfidenceLabel b)"
  by (simp add: getConfidenceLabel_def CONFIDENCE_THRESHOLDS_def lit_eq_iff)

theorem confidence_label_cutoffs_witness:
  "getConfidenceLabel (sample_result 0.2) = getConfidenceLabel (sample_result 0.4)
   \<and> getConfidenceLabel (sample_result 0.2) = lit ''Low Confidence''
   \<and> getConfidenceLabel (sample_result 0.8) = lit ''High Confidence''
   \<and> getConfidenceLabel (sample_result 0.5) = lit ''Medium Confidence''"
proof -
  have c: "confidence (sample_result x) = x" for x
    by (simp add: sample_result_def)
  note low = confidence_label_cutoffs
               [of "sample_result 0.2" "sample_result 0.2" "sample_result 0.4"]
  note high = confidence_label_cutoffs
               [of "sample_result 0.8" "sample_result 0.2" "sample_result 0.4"]
  note medium = confidence_label_cutoffs
               [of "sample_result 0.5" "sample_result 0.2" "sample_result 0.4"]
  have "getConfidenceLabel (sample_result 0.2) = getConfidenceLabel (sample_result 0.4)"
    using low by (auto simp add: c CONFIDENCE_THRESHOLDS_def)
  moreover have "getConfidenceLabel (sample_result 0.2) = lit ''Low Confidence''"
    using low by (simp add: c CONFIDENCE_THRESHOLDS_def)
  moreover have "getConfidenceLabel (sample_result 0.8) = lit ''High Confidence''"
    using high by (simp add: c CONFIDENCE_THRESHOLDS_def)
  moreover have "getConfidenceLabel (sample_result 0.5) = lit ''Medium Confidence''"
    using medium by (simp add: c CONFIDENCE_THRESHOLDS_def)
  ultimately show ?thesis by simp
qed


section \<open>Properties of the input screen\<close>

lemma handleVerify_blank:
  "trim t = [] \<Longrightarrow>
     handleVerify dev net t = [Alert (lit ''Error'') (Some (lit ''Please enter a claim''))]"
  by (simp add: handleVerify_def truthy_def)

lemma handleVerify_sent:
  "trim t \<noteq> [] \<Longrightarrow>
     handleVerify dev net t =
       [SetLoading True, Http (verify_call dev (request_for t))] @
       (case net (verify_call dev (request_for t)) of
          Inr res \<Rightarrow> [Navigate (lit ''Result'') res]
        | Inl e \<Rightarrow> [Alert (lit ''Error'') (alert_message (verify_catch e))]) @
       [SetLoading False]"
  by (simp add: handleVerify_def truthy_def verify_def request_for_def split: sum.splits)

lemma submitted_handleVerify:
  "submitted (handleVerify dev net t) = (if trim t = [] then [] else [request_for t])"
  by (simp add: handleVerify_blank handleVerify_sent verify_call_def split: sum.splits)


lemma submitted_append: "submitted (es @ fs) = submitted es @ submitted fs"
  by (induction es rule: submitted.induct) (simp_all split: option.splits)

lemma step_submitted:
  "submitted (snd (step dev s ev)) = [] \<or>
   (trim (claim_state s) \<noteq> [] \<and> submitted (snd (step dev s ev)) = [request_for (claim_state s)])"
proof (cases ev)
  case (ChangeText t)
  then show ?thesis by simp
next
  case (PressVerify net)
  then show ?thesis by (simp add: Let_def truthy_def submitted_handleVerify)
next
  case PressClear
  then show ?thesis by simp
qed


lemma run_Cons_submitted:
  "submitted (snd (run dev s (ev # evs)))
     = submitted (snd (step dev s ev)) @ submitted (snd (run dev (fst (step dev s ev)) evs))"
  by (simp add: submitted_append split: prod.splits)

lemma run_submitted_shape:
  "r \<in> set (submitted (snd (run dev s evs))) \<Longrightarrow> \<exists>t. trim t \<noteq> [] \<and> r = request_for t"
proof (induction evs arbitrary: s)
  case Nil
  then show ?case by simp
next
  case (Cons ev evs)
  from Cons.prems have "r \<in> set (submitted (snd (step dev s ev)))
      \<or> r \<in> set (submitted (snd (run dev (fst (step dev s ev)) evs)))"
    by (simp only: run_Cons_submitted set_append Un_iff)
  then show ?case
  proof
    assume "r \<in> set (submitted (snd (step dev s ev)))"
    with step_submitted [of dev s ev] show ?thesis by auto
  next
    assume "r \<in> set (submitted (snd (run dev (fst (step dev s ev)) evs)))"
    then show ?thesis by (rule Cons.IH)
  qed
qed


lemma request_for_props:
  "trim t \<noteq> [] \<Longrightarrow>
     claim (request_for t) = trim t \<and> claim (request_for t) \<noteq> []
     \<and> (\<exists>c \<in> set (claim (request_for t)). \<not> isWhiteSpace c)
     \<and> language (request_for t) = Some (lit ''en-US'') \<and> media_url (request_for t) = None"
  using trim_not_blank [of t] by (simp add: request_for_def)

text \<open>
  C2. When the POST /verify call succeeds, \<open>handleVerify\<close> sets the loading flag, makes that
  one call, navigates to the route "Result" with the response data as the result, whole
  and unchanged, and clears the loading flag. The only call of the submission is the POST
  to \<open>/verify\<close>; no status call for any claim id is made.
\<close>

theorem handleVerify_success:
  "trim t \<noteq> [] \<Longrightarrow>
   net (verify_call dev \<lparr>claim = trim t, language = Some (lit ''en-US''), media_url = None\<rparr>)
     = Inr res \<Longrightarrow>
     handleVerify dev net t =
       [SetLoading True,
        Http (verify_call dev \<lparr>claim = trim t, language = Some (lit ''en-US''), media_url = None\<rparr>),
        Navigate (lit ''Result'') res,
        SetLoading False]
   \<and> map call_method (calls_of (handleVerify dev net t)) = [POST]
   \<and> map call_url (calls_of (handleVerify dev net t)) = [API_URL dev @ lit ''/verify'']
   \<and> (\<forall>claimId. status_call dev claimId \<notin> set (calls_of (handleVerify dev net t)))"
proof -
  assume ne: "trim t \<noteq> []"
    and ok: "net (verify_call dev \<lparr>claim = trim t, language = Some (lit ''en-US''),
               media_url = None\<rparr>) = Inr res"
  from ok have ok': "net (verify_call dev (request_for t)) = Inr res"
    by (simp add: request_for_def)
  have eq: "handleVerify dev net t =
       [SetLoading True, Http (verify_call dev (request_for t)),
        Navigate (lit ''Result'') res, SetLoading False]"
    by (simp add: handleVerify_sent [OF ne] ok')
  have calls: "calls_of (handleVerify dev net t) = [verify_call dev (request_for t)]"
    by (simp add: eq)
  have "status_call dev claimId \<noteq> verify_call dev (request_for t)" for claimId
    by (simp add: status_call_def get_call_def verify_call_def)
  with eq calls show ?thesis
    by (simp add: request_for_def verify_call_def)
qed

theorem handleVerify_success_witness:
  "handleVerify False (\<lambda>c. Inr (sample_result 0.9)) typed_claim =
     [SetLoading True, Http (verify_call False sample_request),
      Navigate (lit ''Result'') (sample_result 0.9), SetLoading False]"
  using handleVerify_success [of typed_claim "\<lambda>c. Inr (sample_result 0.9)" False "sample_result 0.9"]
  by (simp add: trim_typed_claim lit_Nil_iff sample_request_def)








text \<open>
  C8. \<open>handleVerify\<close> sends a request exactly when the trimmed claim text is non-empty, and
  the request it sends holds the trimmed claim, the language "en-US" and no
  \<open>media_url\<close>. Every claim sent, by \<open>handleVerify\<close> or by any run of the screen, is a
  trimmed text, is non-empty and contains a code unit that is not white space.
\<close>

theorem handleVerify_submits_trimmed:
  "submitted (handleVerify dev net t) =
     (if trim t = [] then []
      else [\<lparr>claim = trim t, language = Some (lit ''en-US''), media_url = None\<rparr>])
   \<and> (\<forall>r \<in> set (submitted (handleVerify dev net t)).
         claim r \<noteq> [] \<and> (\<exists>c \<in> set (claim r). \<not> isWhiteSpace c))
   \<and> (\<forall>r \<in> set (submitted (snd (run dev s evs))).
         (\<exists>t'. claim r = trim t') \<and> claim r \<noteq> [] \<and> (\<exists>c \<in> set (claim r). \<not> isWhiteSpace c)
         \<and> language r = Some (lit ''en-US'') \<and> media_url r = None)"
proof -
  have one: "submitted (handleVerify dev net t) =
     (if trim t = [] then []
      else [\<lparr>claim = trim t, language = Some (lit ''en-US''), media_url = None\<rparr>])"
    by (simp add: submitted_handleVerify request_for_def)
  have two: "claim r \<noteq> [] \<and> (\<exists>c \<in> set (claim r). \<not> isWhiteSpace c)"
    if "r \<in> set (submitted (handleVerify dev net t))" for r
  proof -
    from that have "trim t \<noteq> [] \<and> r = request_for t"
      by (simp add: submitted_handleVerify split: if_splits)
    then show ?thesis using request_for_props [of t] by auto
  qed
  have three: "(\<exists>t'. claim r = trim t') \<and> claim r \<noteq> []
         \<and> (\<exists>c \<in> set (claim r). \<not> isWhiteSpace c)
         \<and> language r = Some (lit ''en-US'') \<and> media_url r = None"
    if "r \<in> set (submitted (snd (run dev s evs)))" for r
  proof -
    from that obtain t' where "trim t' \<noteq> []" and "r = request_for t'"
      using run_submitted_shape by blast
    then show ?thesis using request_for_props [of t'] by auto
  qed
  from one two three show ?thesis by blast
qed

theorem handleVerify_submits_trimmed_witness:
  "submitted (handleVerify False (\<lambda>c. Inr (sample_result 0.9)) typed_claim) = [sample_request]
   \<and> submitted (handleVerify False (\<lambda>c. Inr (sample_result 0.9)) blank_claim) = []
   \<and> submitted (snd (run False initial
        [ChangeText blank_claim, PressVerify (\<lambda>c. Inr (sample_result 0.9))])) = []"
proof -
  have "submitted (handleVerify False (\<lambda>c. Inr (sample_result 0.9)) typed_claim)
          = [sample_request]"
    using handleVerify_submits_trimmed
            [of False "\<lambda>c. Inr (sample_result 0.9)" typed_claim initial "[]"]
    by (simp add: trim_typed_claim lit_Nil_iff sample_request_def)
  moreover have "submitted (handleVerify False (\<lambda>c. Inr (sample_result 0.9)) blank_claim) = []"
    using handleVerify_submits_trimmed
            [of False "\<lambda>c. Inr (sample_result 0.9)" blank_claim initial "[]"]
    by (simp add: trim_blank_claim)
  moreover have "submitted (snd (run False initial
        [ChangeText blank_claim, PressVerify (\<lambda>c. Inr (sample_result 0.9))])) = []"
    by (simp add: initial_def truthy_def trim_blank_claim)
  ultimately show ?thesis by simp
qed


section \<open>Properties of the verdict synthesizer\<close>

text \<open>Evaluation of the manipulated-media scenario.\<close>

lemma scenario_netScore: "netScore scenario_params scenario_evidence = 0.9"
  by (simp add: netScore_def supportWeight_def contradictWeight_def bucketWeight_def
        scenario_params_def scenario_evidence_def)

lemma scenario_textVerdict: "textVerdict scenario_params scenario_evidence = TRUE"
  by (simp add: textVerdict_def scenario_netScore)

text \<open>
  C7. Manipulated-media cap: when a media analysis is present that reports manipulation
  with a confidence at or above the high-confidence bound, the synthesized verdict is
  never TRUE, whatever the textual evidence; it is one of MISLEADING, FALSE, UNVERIFIED
  and NEEDS_CONTEXT.
\<close>

theorem manipulated_media_cap:
  "is_manipulated m \<Longrightarrow> mediaHigh p \<le> ma_confidence m \<Longrightarrow>
     synthesizeVerdict p evs (Some m) \<noteq> TRUE
     \<and> synthesizeVerdict p evs (Some m) \<in> {MISLEADING, FALSE, UNVERIFIED, NEEDS_CONTEXT}"
proof -
  assume a: "is_manipulated m" and b: "mediaHigh p \<le> ma_confidence m"
  have "synthesizeVerdict p evs (Some m) \<noteq> TRUE"
    using a b by (simp add: synthesizeVerdict_def mediaCap_def)
  then show ?thesis by (cases "synthesizeVerdict p evs (Some m)") simp_all
qed

theorem manipulated_media_cap_witness:
  "netScore scenario_params scenario_evidence = 0.9
   \<and> ma_confidence scenario_media = 0.95
   \<and> textVerdict scenario_params scenario_evidence = TRUE
   \<and> synthesizeVerdict scenario_params scenario_evidence None = TRUE
   \<and> synthesizeVerdict scenario_params scenario_evidence (Some scenario_media) \<noteq> TRUE"
proof -
  have "synthesizeVerdict scenario_params scenario_evidence (Some scenario_media) \<noteq> TRUE"
    using manipulated_media_cap [of scenario_media scenario_params scenario_evidence]
    by (simp add: scenario_media_def scenario_params_def)
  then show ?thesis
    by (simp add: scenario_netScore scenario_textVerdict synthesizeVerdict_def mediaCap_def
          scenario_media_def)
qed

end
